theory Spec2Isabelle
  imports Main
begin

section \<open>JavaScript values\<close>

text \<open>
  The service code works on untyped JavaScript values: parsed JSON bodies, header
  tables, the result of the link-header parser. They are modelled by one datatype.
  \<open>JNum\<close> carries the integer-valued numbers (no other number occurs on the paths
  modelled here; NaN, where an operation can produce it, is an explicit \<open>None\<close>).
  \<open>JObj\<close> is a plain object: its own properties as an association list with distinct
  keys. \<open>JFun\<close> is a built-in function object, known by its name.
\<close>

datatype jsval =
    JUndefined
  | JNull
  | JBool bool
  | JNum int
  | JStr string
  | JArr "jsval list"
  | JObj "(string \<times> jsval) list"
  | JFun string

text \<open>
  Modelled from the spec: the kinds of classified failures are the taxonomy of the
  spec's section 7. The source imports the class \<open>InvalidResponse\<close> from
  \<open>'../index.js'\<close>, which is not among the source files, and names no other kind.
\<close>

datatype failure_kind =
  NotFound | RateLimited | AuthRejected | TransientServerError | InvalidResponse | Deprecated

text \<open>
  What a \<open>throw\<close> can carry: a classified failure (its kind and its
  \<open>prettyMessage\<close>), or one of the faults the JavaScript runtime raises itself.
\<close>

datatype thrown =
    Failure failure_kind string
  | TypeError
  | RangeError

text \<open>Sequencing of computations that may throw.\<close>

definition andThen :: "thrown + 'a \<Rightarrow> ('a \<Rightarrow> thrown + 'b) \<Rightarrow> thrown + 'b" where
  "andThen r f = (case r of Inl e \<Rightarrow> Inl e | Inr v \<Rightarrow> f v)"

text \<open>ToBoolean, as \<open>!x\<close>, \<open>x ? a : b\<close>, \<open>x || y\<close> and \<open>filter(Boolean)\<close> apply it.\<close>

fun truthy :: "jsval \<Rightarrow> bool" where
  "truthy JUndefined = False"
| "truthy JNull = False"
| "truthy (JBool b) = b"
| "truthy (JNum n) = (n \<noteq> 0)"
| "truthy (JStr s) = (s \<noteq> [])"
| "truthy (JArr xs) = True"
| "truthy (JObj kvs) = True"
| "truthy (JFun f) = True"

text \<open>
  The properties every plain object inherits from \<open>Object.prototype\<close>: eleven
  functions and the accessor \<open>__proto__\<close>, whose value for a plain object is
  \<open>Object.prototype\<close> itself (an object; it stands here as an object without own
  properties of interest).
\<close>

definition objectPrototypeFunctions :: "string list" where
  "objectPrototypeFunctions =
     [''constructor'', ''hasOwnProperty'', ''isPrototypeOf'', ''propertyIsEnumerable'',
      ''toLocaleString'', ''toString'', ''valueOf'', ''__defineGetter__'',
      ''__defineSetter__'', ''__lookupGetter__'', ''__lookupSetter__'']"

definition inherited :: "string \<Rightarrow> jsval" where
  "inherited k =
     (if k \<in> set objectPrototypeFunctions then JFun k
      else if k = ''__proto__'' then JObj []
      else JUndefined)"

text \<open>Reading a property of a plain object: its own, else the inherited one.\<close>

definition objGet :: "(string \<times> jsval) list \<Rightarrow> string \<Rightarrow> jsval" where
  "objGet kvs k = (case map_of kvs k of Some v \<Rightarrow> v | None \<Rightarrow> inherited k)"

text \<open>
  Property read \<open>v.k\<close> / \<open>v[k]\<close>. Reading a property of \<open>undefined\<close> or \<open>null\<close>
  raises a TypeError. A plain object answers with its own property, else with the
  inherited one, else with \<open>undefined\<close>. Arrays and strings answer \<open>length\<close>; for
  the other values, and the other names, the answer \<open>undefined\<close> is right for every
  name the program reads from them (\<open>message\<close>, \<open>headers\<close>, \<open>link\<close>, \<open>last\<close>,
  \<open>page\<close>, \<open>data\<close>, \<open>repository\<close>, \<open>object\<close>, \<open>history\<close>, \<open>totalCount\<close>,
  \<open>color\<close>, \<open>priority\<close>), none of which a built-in prototype defines.
\<close>

fun getProp :: "jsval \<Rightarrow> string \<Rightarrow> thrown + jsval" where
  "getProp JUndefined k = Inl TypeError"
| "getProp JNull k = Inl TypeError"
| "getProp (JObj kvs) k = Inr (objGet kvs k)"
| "getProp (JArr xs) k =
     (if k = ''length'' then Inr (JNum (int (length xs))) else Inr JUndefined)"
| "getProp (JStr s) k =
     (if k = ''length'' then Inr (JNum (int (length s))) else Inr JUndefined)"
| "getProp (JBool b) k = Inr JUndefined"
| "getProp (JNum n) k = Inr JUndefined"
| "getProp (JFun f) k = Inr JUndefined"

section \<open>The commit-activity service\<close>

subsection \<open>transform: the GraphQL payload\<close>

text \<open>
  \<^verbatim>\<open>
  static transform({ data }) {
    const { repository: { object: repo } } = data
    if (!repo) { throw new InvalidResponse({ prettyMessage: 'invalid branch' }) }
    return repo.history.totalCount
  }
  \<close>
  Destructuring reads the properties in turn and raises a TypeError on \<open>undefined\<close>
  or \<open>null\<close>, as \<open>getProp\<close> does.
\<close>

definition transform :: "jsval \<Rightarrow> thrown + jsval" where
  "transform payload =
     andThen (getProp payload ''data'') (\<lambda>data.
     andThen (getProp data ''repository'') (\<lambda>repository.
     andThen (getProp repository ''object'') (\<lambda>repo.
       if \<not> truthy repo then Inl (Failure InvalidResponse ''invalid branch'')
       else andThen (getProp repo ''history'') (\<lambda>history.
            getProp history ''totalCount''))))"

subsection \<open>transformAuthorFilter: the count from the pagination link\<close>

text \<open>
  \<^verbatim>\<open>
  static transformAuthorFilter({ res, buffer }) {
    if (buffer.message === 'Not Found') {
      throw new InvalidResponse({ prettyMessage: 'invalid branch' })
    }
    const parsed = parseLinkHeader(res.headers.link)
    if (!parsed) { return 0 }
    return parsed.last.page
  }
  \<close>
  \<open>parseLinkHeader\<close> is the third-party package \<open>parse-link-header\<close>; it is a
  parameter of the model. The argument \<open>{ res, buffer }\<close> is what the REST request
  resolves to.
\<close>

record response =
  res :: jsval
  buffer :: jsval

definition transformAuthorFilter :: "(jsval \<Rightarrow> jsval) \<Rightarrow> response \<Rightarrow> thrown + jsval" where
  "transformAuthorFilter parseLinkHeader r =
     andThen (getProp (buffer r) ''message'') (\<lambda>message.
       if message = JStr ''Not Found'' then Inl (Failure InvalidResponse ''invalid branch'')
       else
         andThen (getProp (res r) ''headers'') (\<lambda>headers.
         andThen (getProp headers ''link'') (\<lambda>link.
           let parsed = parseLinkHeader link in
           if \<not> truthy parsed then Inr (JNum 0)
           else andThen (getProp parsed ''last'') (\<lambda>last.
                getProp last ''page''))))"

subsection \<open>The Date object\<close>

text \<open>
  A Date holds a time value: milliseconds since 1970-01-01T00:00:00Z, or NaN (here
  \<open>None\<close>) when invalid. The calendar is the proleptic Gregorian one, by the Date
  abstract operations of ECMAScript (Day, TimeWithinDay, DaysInYear, DayFromYear,
  YearFromTime, InLeapYear, DayWithinYear, MonthFromTime, DateFromTime, MakeDay,
  MakeDate, TimeClip).
\<close>

definition msPerDay :: int where
  "msPerDay = 86400000"

definition Day :: "int \<Rightarrow> int" where
  "Day t = t div msPerDay"

definition TimeWithinDay :: "int \<Rightarrow> int" where
  "TimeWithinDay t = t mod msPerDay"

definition DaysInYear :: "int \<Rightarrow> int" where
  "DaysInYear y =
     (if y mod 4 \<noteq> 0 then 365
      else if y mod 100 \<noteq> 0 then 366
      else if y mod 400 \<noteq> 0 then 365
      else 366)"

definition DayFromYear :: "int \<Rightarrow> int" where
  "DayFromYear y =
     365 * (y - 1970) + (y - 1969) div 4 - (y - 1901) div 100 + (y - 1601) div 400"

text \<open>
  YearFromTime is the year the day falls in (the largest \<open>y\<close> whose first day is not
  after it). It is computed in the 400-year cycle of 146097 days that starts on a
  1 March: the year of the cycle, and one more from 1 January on (day 306 of a year
  that starts in March).
\<close>

definition YearFromTime :: "int \<Rightarrow> int" where
  "YearFromTime t =
     (let z = Day t + 719468;
          era = z div 146097;
          doe = z mod 146097;
          yoe = (doe - doe div 1460 + doe div 36524 - doe div 146096) div 365;
          doy = doe - (365 * yoe + yoe div 4 - yoe div 100)
      in yoe + era * 400 + (if doy \<ge> 306 then 1 else 0))"

definition leapDays :: "int \<Rightarrow> int" where
  "leapDays y = (if DaysInYear y = 366 then 1 else 0)"

definition InLeapYear :: "int \<Rightarrow> int" where
  "InLeapYear t = leapDays (YearFromTime t)"

definition DayWithinYear :: "int \<Rightarrow> int" where
  "DayWithinYear t = Day t - DayFromYear (YearFromTime t)"

text \<open>
  The day of the year on which a month starts; months are numbered from 0 (January) to
  11, \<open>leap\<close> is 1 in a leap year and 0 otherwise.
\<close>

definition monthStart :: "int \<Rightarrow> int \<Rightarrow> int" where
  "monthStart month leap =
     (if month = 0 then 0
      else if month = 1 then 31
      else if month = 2 then 59 + leap
      else if month = 3 then 90 + leap
      else if month = 4 then 120 + leap
      else if month = 5 then 151 + leap
      else if month = 6 then 181 + leap
      else if month = 7 then 212 + leap
      else if month = 8 then 243 + leap
      else if month = 9 then 273 + leap
      else if month = 10 then 304 + leap
      else 334 + leap)"

definition MonthFromTime :: "int \<Rightarrow> int" where
  "MonthFromTime t =
     (let d = DayWithinYear t; leap = InLeapYear t in
      if d < 31 then 0
      else if d < 59 + leap then 1
      else if d < 90 + leap then 2
      else if d < 120 + leap then 3
      else if d < 151 + leap then 4
      else if d < 181 + leap then 5
      else if d < 212 + leap then 6
      else if d < 243 + leap then 7
      else if d < 273 + leap then 8
      else if d < 304 + leap then 9
      else if d < 334 + leap then 10
      else 11)"

definition DateFromTime :: "int \<Rightarrow> int" where
  "DateFromTime t = DayWithinYear t - monthStart (MonthFromTime t) (InLeapYear t) + 1"

text \<open>
  MakeDay: the day number of the first of the month (a month outside 0..11 carries into
  the year), plus the date, which may lie outside the month.
\<close>

definition MakeDay :: "int \<Rightarrow> int \<Rightarrow> int \<Rightarrow> int" where
  "MakeDay year month date =
     (let ym = year + month div 12; mn = month mod 12 in
      DayFromYear ym + monthStart mn (leapDays ym) + date - 1)"

definition MakeDate :: "int \<Rightarrow> int \<Rightarrow> int" where
  "MakeDate day time = day * msPerDay + time"

definition TimeClip :: "int \<Rightarrow> int option" where
  "TimeClip t = (if \<bar>t\<bar> > 8640000000000000 then None else Some t)"

text \<open>The getters and setters the service calls, on a valid time value.\<close>

definition getUTCFullYear :: "int \<Rightarrow> int" where
  "getUTCFullYear t = YearFromTime t"

definition getUTCDate :: "int \<Rightarrow> int" where
  "getUTCDate t = DateFromTime t"

definition setUTCFullYear :: "int \<Rightarrow> int \<Rightarrow> int option" where
  "setUTCFullYear t year =
     TimeClip (MakeDate (MakeDay year (MonthFromTime t) (DateFromTime t)) (TimeWithinDay t))"

definition setUTCDate :: "int \<Rightarrow> int \<Rightarrow> int option" where
  "setUTCDate t date =
     TimeClip (MakeDate (MakeDay (YearFromTime t) (MonthFromTime t) date) (TimeWithinDay t))"

text \<open>Decimal digits, padded with zeros on the left to a fixed width.\<close>

fun pad :: "nat \<Rightarrow> nat \<Rightarrow> string" where
  "pad 0 n = []"
| "pad (Suc w) n = pad w (n div 10) @ [''0123456789'' ! (n mod 10)]"

text \<open>
  toISOString: \<open>YYYY-MM-DDTHH:mm:ss.sssZ\<close>; a year outside 0..9999 is written with a
  sign and six digits; an invalid Date raises a RangeError.
\<close>

definition isoYear :: "int \<Rightarrow> string" where
  "isoYear y =
     (if 0 \<le> y \<and> y \<le> 9999 then pad 4 (nat y)
      else (if y < 0 then ''-'' else ''+'') @ pad 6 (nat \<bar>y\<bar>))"

definition toISOString :: "int option \<Rightarrow> thrown + string" where
  "toISOString tv =
     (case tv of
        None \<Rightarrow> Inl RangeError
      | Some t \<Rightarrow>
          (let ms = TimeWithinDay t in
           Inr (isoYear (YearFromTime t) @ ''-'' @ pad 2 (nat (MonthFromTime t + 1)) @ ''-''
                @ pad 2 (nat (DateFromTime t)) @ ''T''
                @ pad 2 (nat (ms div 3600000)) @ '':''
                @ pad 2 (nat (ms div 60000 mod 60)) @ '':''
                @ pad 2 (nat (ms div 1000 mod 60)) @ ''.''
                @ pad 3 (nat (ms mod 1000)) @ ''Z'')))"

subsection \<open>getIntervalQueryStartDate\<close>

text \<open>
  \<^verbatim>\<open>
  static getIntervalQueryStartDate({ interval }) {
    const now = new Date()
    if (interval === 't') { return null }
    else if (interval === 'y') { now.setUTCFullYear(now.getUTCFullYear() - 1) }
    else if (interval === 'm' || interval === '4w') { now.setUTCDate(now.getUTCDate() - 30) }
    else { now.setUTCDate(now.getUTCDate() - 7) }
    return now.toISOString()
  }
  \<close>
  \<open>new Date()\<close> reads the clock: the reading is the first argument of the model.
\<close>

definition getIntervalQueryStartDate :: "int \<Rightarrow> string \<Rightarrow> thrown + jsval" where
  "getIntervalQueryStartDate now interval =
     (if interval = ''t'' then Inr JNull
      else
        andThen
          (toISOString
            (if interval = ''y'' then setUTCFullYear now (getUTCFullYear now - 1)
             else if interval = ''m'' \<or> interval = ''4w'' then setUTCDate now (getUTCDate now - 30)
             else setUTCDate now (getUTCDate now - 7)))
          (\<lambda>s. Inr (JStr s)))"

subsection \<open>render\<close>

text \<open>
  String conversion, as a template literal applies it to a substituted value. Numbers
  are the integers (written in decimal, exact below 10^21); a built-in function prints
  as native code.
\<close>

fun decimal :: "nat \<Rightarrow> string" where
  "decimal n =
     (if n < 10 then [''0123456789'' ! n]
      else decimal (n div 10) @ [''0123456789'' ! (n mod 10)])"

fun joinWith :: "string \<Rightarrow> string list \<Rightarrow> string" where
  "joinWith sep [] = []"
| "joinWith sep [x] = x"
| "joinWith sep (x # y # ys) = x @ sep @ joinWith sep (y # ys)"

fun toStringJS :: "jsval \<Rightarrow> string" where
  "toStringJS JUndefined = ''undefined''"
| "toStringJS JNull = ''null''"
| "toStringJS (JBool b) = (if b then ''true'' else ''false'')"
| "toStringJS (JNum n) = (if n < 0 then ''-'' @ decimal (nat (- n)) else decimal (nat n))"
| "toStringJS (JStr s) = s"
| "toStringJS (JArr xs) =
     joinWith '','' (map (\<lambda>x. if x = JUndefined \<or> x = JNull then [] else toStringJS x) xs)"
| "toStringJS (JObj kvs) = ''[object Object]''"
| "toStringJS (JFun f) = ''function '' @ f @ ''() { [native code] }''"

text \<open>
  \<^verbatim>\<open>
  static defaultBadgeData = { label: 'commit activity', color: 'blue' }

  static render({ interval, commitCount, authorFilter }) {
    const label = interval === 't' ? 'commits' : this.defaultBadgeData.label
    const authorFilterLabel = authorFilter ? ` by ${authorFilter}` : ``
    const intervalLabel = {
      t: '', y: '/year', m: '/month', '4w': '/four weeks', w: '/week',
    }[interval]
    return {
      label: `${label}${authorFilterLabel}`,
      message: `${metric(commitCount)}${intervalLabel}`,
    }
  }
  \<close>
  \<open>interval\<close> is a string (a route parameter); \<open>authorFilter\<close> is a string or
  undefined (\<open>None\<close>), as the query parameter schema \<open>Joi.string()\<close> declares it.
  \<open>metric\<close> is imported from \<open>'../text-formatters.js'\<close>, which is not among the
  source files: it is a parameter.

  \<open>this.defaultBadgeData\<close> is read from the receiver at the time of the call, so its
  value is a parameter too. On the class, once its static fields are initialised, it
  is the table of line 66, \<open>defaultBadgeData\<close> below. The calls in \<open>static examples\<close>
  (lines 45 and 60) run while the static fields are initialised in order, before line
  66: there the receiver has only the table it inherits from its base class. A
  subclass can carry a table of its own.
\<close>

definition defaultBadgeData :: jsval where
  "defaultBadgeData = JObj [(''label'', JStr ''commit activity''), (''color'', JStr ''blue'')]"

record badge =
  label :: string
  message :: string

definition intervalLabels :: "(string \<times> jsval) list" where
  "intervalLabels =
     [(''t'', JStr []), (''y'', JStr ''/year''), (''m'', JStr ''/month''),
      (''4w'', JStr ''/four weeks''), (''w'', JStr ''/week'')]"

text \<open>The test \<open>authorFilter ? ... : ...\<close> on a string or undefined.\<close>

definition given :: "string option \<Rightarrow> bool" where
  "given a = (case a of None \<Rightarrow> False | Some s \<Rightarrow> s \<noteq> [])"

definition render ::
  "(jsval \<Rightarrow> string) \<Rightarrow> jsval \<Rightarrow> string \<Rightarrow> jsval \<Rightarrow> string option \<Rightarrow> thrown + badge" where
  "render metric thisDefaultBadgeData interval commitCount authorFilter =
     andThen
       (if interval = ''t'' then Inr (JStr ''commits'') else getProp thisDefaultBadgeData ''label'')
       (\<lambda>label.
          let authorFilterLabel =
                (case authorFilter of
                   None \<Rightarrow> []
                 | Some a \<Rightarrow> if given authorFilter then '' by '' @ a else []);
              intervalLabel = objGet intervalLabels interval
          in Inr \<lparr>label = toStringJS label @ authorFilterLabel,
                  message = metric commitCount @ toStringJS intervalLabel\<rparr>)"

subsection \<open>fetch and fetchAuthorFilter: the requests\<close>

text \<open>
  \<^verbatim>\<open>
  async fetch({ interval, user, repo, branch = 'HEAD' }) {
    const since = this.constructor.getIntervalQueryStartDate({ interval })
    return this._requestGraphql({
      query: gql`...`, variables: { user, repo, branch, since }, schema, transformErrors })
  }

  async fetchAuthorFilter({ interval, user, repo, branch = 'HEAD', authorFilter }) {
    const since = this.constructor.getIntervalQueryStartDate({ interval }) || undefined
    return this._request({
      url: `/repos/${user}/${repo}/commits`,
      options: { searchParams: { sha: branch, author: authorFilter, per_page: '1', since: since } },
      errorMessages: errorMessagesFor('repo not found'),
    })
  }
  \<close>
  Each builds one request description and hands it to the base class, once. The
  description is the value of \<open>fetch\<close> and \<open>fetchAuthorFilter\<close> here; the handing
  over is the step \<open>fetch_step\<close>, \<open>fetchAuthorFilter_step\<close> below. \<open>_request\<close> and
  \<open>_requestGraphql\<close> belong to the base class \<open>GithubAuthV4Service\<close>, which is not
  among the source files: what they resolve to is a parameter. The query document, the schema and \<open>transformErrors\<close>
  are constants of the module and are left out of the description. \<open>branch\<close> is a
  string or undefined (the route makes it optional).
\<close>

record graphqlVariables =
  var_user :: string
  var_repo :: string
  var_branch :: string
  var_since :: jsval

record searchParams =
  sha :: string
  author :: "string option"
  per_page :: string
  since :: jsval

record restRequest =
  url :: string
  searchParams :: searchParams
  errorMessages :: string

datatype request = Graphql graphqlVariables | Rest restRequest

definition orHEAD :: "string option \<Rightarrow> string" where
  "orHEAD branch = (case branch of None \<Rightarrow> ''HEAD'' | Some b \<Rightarrow> b)"

definition fetch :: "int \<Rightarrow> string \<Rightarrow> string \<Rightarrow> string \<Rightarrow> string option \<Rightarrow> thrown + graphqlVariables" where
  "fetch now interval user repo branch =
     andThen (getIntervalQueryStartDate now interval) (\<lambda>since.
       Inr \<lparr>var_user = user, var_repo = repo, var_branch = orHEAD branch, var_since = since\<rparr>)"

definition fetchAuthorFilter ::
  "int \<Rightarrow> string \<Rightarrow> string \<Rightarrow> string \<Rightarrow> string option \<Rightarrow> string option \<Rightarrow> thrown + restRequest" where
  "fetchAuthorFilter now interval user repo branch authorFilter =
     andThen (getIntervalQueryStartDate now interval) (\<lambda>start.
       let since = (if truthy start then start else JUndefined) in
       Inr \<lparr>url = ''/repos/'' @ user @ ''/'' @ repo @ ''/commits'',
            searchParams =
              \<lparr>sha = orHEAD branch, author = authorFilter, per_page = ''1'', since = since\<rparr>,
            errorMessages = ''repo not found''\<rparr>)"

subsection \<open>handle\<close>

text \<open>
  The collaborators the class does not define itself are gathered in a record: what
  the base class's \<open>_request\<close> and \<open>_requestGraphql\<close> resolve to, the link-header
  parser, the formatter, and \<open>this.constructor.defaultBadgeData\<close>, the table of the
  class the instance belongs to.
\<close>

record runtime =
  request_rest :: "restRequest \<Rightarrow> thrown + response"
  request_graphql :: "graphqlVariables \<Rightarrow> thrown + jsval"
  parse_link_header :: "jsval \<Rightarrow> jsval"
  metric_formatter :: "jsval \<Rightarrow> string"
  constructor_defaultBadgeData :: jsval

text \<open>
  The state is the list of the requests the base class has been handed so far, in
  order. A call of \<open>this._request\<close> or \<open>this._requestGraphql\<close> is a step on it: the
  call itself records its request, and resolves as the base class decides.
\<close>

definition this_request ::
  "runtime \<Rightarrow> restRequest \<Rightarrow> request list \<Rightarrow> request list \<times> (thrown + response)" where
  "this_request rt req log = (log @ [Rest req], request_rest rt req)"

definition this_requestGraphql ::
  "runtime \<Rightarrow> graphqlVariables \<Rightarrow> request list \<Rightarrow> request list \<times> (thrown + jsval)" where
  "this_requestGraphql rt vars log = (log @ [Graphql vars], request_graphql rt vars)"

text \<open>
  The two fetch methods as steps: the description is computed and handed to the base
  class by the method's one call; where computing it throws, nothing is handed over.
\<close>

definition fetch_step ::
  "runtime \<Rightarrow> int \<Rightarrow> string \<Rightarrow> string \<Rightarrow> string \<Rightarrow> string option \<Rightarrow> request list
     \<Rightarrow> request list \<times> (thrown + jsval)" where
  "fetch_step rt now interval user repo branch log =
     (case fetch now interval user repo branch of
        Inl e \<Rightarrow> (log, Inl e)
      | Inr vars \<Rightarrow> this_requestGraphql rt vars log)"

definition fetchAuthorFilter_step ::
  "runtime \<Rightarrow> int \<Rightarrow> string \<Rightarrow> string \<Rightarrow> string \<Rightarrow> string option \<Rightarrow> string option
     \<Rightarrow> request list \<Rightarrow> request list \<times> (thrown + response)" where
  "fetchAuthorFilter_step rt now interval user repo branch authorFilter log =
     (case fetchAuthorFilter now interval user repo branch authorFilter of
        Inl e \<Rightarrow> (log, Inl e)
      | Inr req \<Rightarrow> this_request rt req log)"

text \<open>
  \<^verbatim>\<open>
  async handle({ interval, user, repo, branch }, { authorFilter }) {
    let commitCount
    if (authorFilter) {
      const authorFilterRes = await this.fetchAuthorFilter({ interval, user, repo, branch, authorFilter })
      commitCount = this.constructor.transformAuthorFilter(authorFilterRes)
    } else {
      const json = await this.fetch({ interval, user, repo, branch })
      commitCount = this.constructor.transform(json)
    }
    return this.constructor.render({ interval, commitCount, authorFilter })
  }
  \<close>
  The model takes the list of requests so far and returns it as the steps leave it,
  with the outcome. The transforms and \<open>render\<close> take no part in the state: they are
  static methods that call nothing of the base class.
\<close>

definition handle ::
  "runtime \<Rightarrow> int \<Rightarrow> string \<Rightarrow> string \<Rightarrow> string \<Rightarrow> string option \<Rightarrow> string option
     \<Rightarrow> request list \<Rightarrow> request list \<times> (thrown + badge)" where
  "handle rt now interval user repo branch authorFilter log =
     (if given authorFilter then
        (case fetchAuthorFilter_step rt now interval user repo branch authorFilter log of
           (log', fetched) \<Rightarrow>
             (log',
              andThen fetched (\<lambda>authorFilterRes.
              andThen (transformAuthorFilter (parse_link_header rt) authorFilterRes) (\<lambda>commitCount.
                render (metric_formatter rt) (constructor_defaultBadgeData rt)
                  interval commitCount authorFilter))))
      else
        (case fetch_step rt now interval user repo branch log of
           (log', fetched) \<Rightarrow>
             (log',
              andThen fetched (\<lambda>json.
              andThen (transform json) (\<lambda>commitCount.
                render (metric_formatter rt) (constructor_defaultBadgeData rt)
                  interval commitCount authorFilter)))))"

section \<open>License colors\<close>

text \<open>
  \<^verbatim>\<open>
  const licenseTypes = {
    permissive: { spdxLicenseIds: [...], aliases: ['BSD', 'Apache 2.0'], color: 'green', priority: '2' },
    copyleft: { spdxLicenseIds: [...], aliases: [...], color: 'orange', priority: '1' },
    'public-domain': { spdxLicenseIds: [...], aliases: ['CC0'], color: '7cd958', priority: '3' },
  }
  \<close>
\<close>

record licenseType =
  spdxLicenseIds :: "string list"
  aliases :: "string list"
  color :: string
  priority :: string

definition permissive :: licenseType where
  "permissive =
     \<lparr>spdxLicenseIds =
        [''AFL-3.0'', ''Apache-2.0'', ''Artistic-2.0'', ''BSD-2-Clause'', ''BSD-3-Clause'',
         ''BSD-3-Clause-Clear'', ''BSL-1.0'', ''CC-BY-4.0'', ''ECL-2.0'', ''ISC'', ''MIT'',
         ''MS-PL'', ''NCSA'', ''PostgreSQL'', ''Zlib''],
      aliases = [''BSD'', ''Apache 2.0''],
      color = ''green'',
      priority = ''2''\<rparr>"

definition copyleft :: licenseType where
  "copyleft =
     \<lparr>spdxLicenseIds =
        [''AGPL-1.0-only'', ''AGPL-1.0-or-later'', ''AGPL-3.0-only'', ''AGPL-3.0-or-later'',
         ''CC-BY-SA-4.0'', ''EPL-1.0'', ''EPL-2.0'', ''EUPL-1.1'', ''GPL-1.0-only'',
         ''GPL-1.0-or-later'', ''GPL-2.0-only'', ''GPL-2.0-or-later'', ''GPL-3.0-only'',
         ''GPL-3.0-or-later'', ''LGPL-2.0-only'', ''LGPL-2.0-or-later'', ''LGPL-2.1-only'',
         ''LGPL-2.1-or-later'', ''LGPL-3.0-only'', ''LGPL-3.0-or-later'', ''LPPL-1.3c'',
         ''MPL-2.0'', ''MS-RL'', ''OFL-1.1'', ''OSL-3.0''],
      aliases =
        [''GPL'', ''GPL-2.0'', ''GPL-3.0'', ''GPLv2'', ''GPLv2+'', ''GPLv3'', ''GPLv3+'',
         ''LGPL'', ''LGPL-2.1'', ''LGPL-3.0'', ''LGPLv2'', ''LGPLv2+'', ''LGPLv3'', ''LGPLv3+'',
         ''AGPL-3.0'', ''AGPLv3+'', ''MPL'', ''MPL 1.1'', ''MPL 2.0'', ''EPL''],
      color = ''orange'',
      priority = ''1''\<rparr>"

definition publicDomain :: licenseType where
  "publicDomain =
     \<lparr>spdxLicenseIds = [''CC0-1.0'', ''Unlicense'', ''WTFPL'', ''0BSD''],
      aliases = [''CC0''],
      color = ''7cd958'',
      priority = ''3''\<rparr>"

definition licenseTypes :: "(string \<times> licenseType) list" where
  "licenseTypes =
     [(''permissive'', permissive), (''copyleft'', copyleft), (''public-domain'', publicDomain)]"

text \<open>
  \<^verbatim>\<open>
  const licenseToColorMap = {}
  Object.keys(licenseTypes).forEach(licenseType => {
    const { spdxLicenseIds, aliases, color, priority } = licenseTypes[licenseType]
    spdxLicenseIds.forEach(license => { licenseToColorMap[license] = { color, priority } })
    aliases.forEach(license => { licenseToColorMap[license] = { color, priority } })
  })
  \<close>
  An assignment \<open>o[k] = v\<close> replaces the value of an own property \<open>k\<close>, or adds it.
\<close>

fun assign :: "(string \<times> jsval) list \<Rightarrow> string \<Rightarrow> jsval \<Rightarrow> (string \<times> jsval) list" where
  "assign [] k v = [(k, v)]"
| "assign ((k', v') # kvs) k v = (if k' = k then (k, v) # kvs else (k', v') # assign kvs k v)"

definition colorAndPriority :: "licenseType \<Rightarrow> jsval" where
  "colorAndPriority t = JObj [(''color'', JStr (color t)), (''priority'', JStr (priority t))]"

definition addLicenseType :: "(string \<times> jsval) list \<Rightarrow> licenseType \<Rightarrow> (string \<times> jsval) list" where
  "addLicenseType m t =
     foldl (\<lambda>m license. assign m license (colorAndPriority t))
       (foldl (\<lambda>m license. assign m license (colorAndPriority t)) m (spdxLicenseIds t))
       (aliases t)"

definition licenseToColorMap :: "(string \<times> jsval) list" where
  "licenseToColorMap = foldl (\<lambda>m (licenseType, t). addLicenseType m t) [] licenseTypes"

text \<open>
  ToNumber, as the subtraction of the sort's comparator applies it; \<open>None\<close> is NaN. A
  string of decimal digits is its value and the empty string is 0; the rest of the
  numeric string grammar (white space, signs, fractions, exponents, other radixes) is
  not modelled and gives NaN here: no priority of the table uses it. An array is
  converted through its string, an object or a function is NaN.
\<close>

definition digitValue :: "char \<Rightarrow> nat option" where
  "digitValue c = map_of (zip ''0123456789'' [0, 1, 2, 3, 4, 5, 6, 7, 8, 9]) c"

fun digitsValue :: "nat \<Rightarrow> string \<Rightarrow> nat option" where
  "digitsValue acc [] = Some acc"
| "digitsValue acc (c # cs) =
     (case digitValue c of None \<Rightarrow> None | Some d \<Rightarrow> digitsValue (10 * acc + d) cs)"

definition stringToNumber :: "string \<Rightarrow> int option" where
  "stringToNumber s = map_option int (digitsValue 0 s)"

fun toNumber :: "jsval \<Rightarrow> int option" where
  "toNumber JUndefined = None"
| "toNumber JNull = Some 0"
| "toNumber (JBool b) = Some (if b then 1 else 0)"
| "toNumber (JNum n) = Some n"
| "toNumber (JStr s) = stringToNumber s"
| "toNumber (JArr xs) = stringToNumber (toStringJS (JArr xs))"
| "toNumber (JObj kvs) = None"
| "toNumber (JFun f) = None"

text \<open>
  Reading a property of a value that is neither \<open>undefined\<close> nor \<open>null\<close>, where no
  TypeError can arise: the elements that \<open>filter(Boolean)\<close> keeps, and the default
  appended after it.
\<close>

definition member :: "jsval \<Rightarrow> string \<Rightarrow> jsval" where
  "member v k = (case getProp v k of Inr x \<Rightarrow> x | Inl e \<Rightarrow> JUndefined)"

text \<open>
  The comparator \<open>(a, b) => b.priority - a.priority\<close>, and what \<open>sort\<close> makes of its
  result: NaN counts as 0.
\<close>

definition byPriority :: "jsval \<Rightarrow> jsval \<Rightarrow> int option" where
  "byPriority a b =
     (case (toNumber (member b ''priority''), toNumber (member a ''priority'')) of
        (Some pb, Some pa) \<Rightarrow> Some (pb - pa)
      | _ \<Rightarrow> None)"

definition sortCompare :: "('a \<Rightarrow> 'a \<Rightarrow> int option) \<Rightarrow> 'a \<Rightarrow> 'a \<Rightarrow> int" where
  "sortCompare comparefn x y = (case comparefn x y of None \<Rightarrow> 0 | Some v \<Rightarrow> v)"

text \<open>
  \<open>Array.prototype.sort\<close> is stable: elements that compare equal keep their order.
  It is modelled by insertion sort, each element going before the first one it does not
  compare greater than. (Where the comparator is not a consistent order, as NaN results
  can make it, the language leaves the order to the implementation.)
\<close>

fun insertSorted :: "('a \<Rightarrow> 'a \<Rightarrow> int option) \<Rightarrow> 'a \<Rightarrow> 'a list \<Rightarrow> 'a list" where
  "insertSorted comparefn x [] = [x]"
| "insertSorted comparefn x (y # ys) =
     (if sortCompare comparefn x y \<le> 0 then x # y # ys
      else y # insertSorted comparefn x ys)"

definition sortJS :: "('a \<Rightarrow> 'a \<Rightarrow> int option) \<Rightarrow> 'a list \<Rightarrow> 'a list" where
  "sortJS comparefn xs = foldr (insertSorted comparefn) xs []"

text \<open>
  \<^verbatim>\<open>
  function licenseToColor(licenses) {
    if (!Array.isArray(licenses)) { licenses = [licenses] }
    const [{ color }] = licenses
      .map(license => licenseToColorMap[license])
      .filter(Boolean)
      .concat([{ color: 'lightgrey', priority: 0 }])
      .sort((a, b) => b.priority - a.priority)
    return color
  }
  \<close>
  The argument is a license or a list of licenses (\<open>@param {string | string[]}\<close>).
\<close>

datatype licenses = License string | Licenses "string list"

definition licenseToColor :: "licenses \<Rightarrow> thrown + jsval" where
  "licenseToColor arg =
     (let licenses = (case arg of License l \<Rightarrow> [l] | Licenses ls \<Rightarrow> ls);
          sorted =
            sortJS byPriority
              (filter truthy (map (\<lambda>license. objGet licenseToColorMap license) licenses)
               @ [JObj [(''color'', JStr ''lightgrey''), (''priority'', JNum 0)]])
      in case sorted of
           [] \<Rightarrow> Inl TypeError
         | first # rest \<Rightarrow> getProp first ''color'')"

section \<open>Vocabulary of the properties\<close>

text \<open>The kind of a classified failure; \<open>None\<close> for a result or a runtime fault.\<close>

definition failureKind :: "thrown + 'a \<Rightarrow> failure_kind option" where
  "failureKind r = (case r of Inl (Failure kind msg) \<Rightarrow> Some kind | _ \<Rightarrow> None)"

text \<open>
  The value at a path of own properties, \<open>undefined\<close> where the path leaves the
  objects: \<open>data.repository.object\<close> is \<open>dig payload [''data'', ''repository'', ''object'']\<close>.
\<close>

fun field :: "jsval \<Rightarrow> string \<Rightarrow> jsval" where
  "field (JObj kvs) k = (case map_of kvs k of Some v \<Rightarrow> v | None \<Rightarrow> JUndefined)"
| "field v k = JUndefined"

definition dig :: "jsval \<Rightarrow> string list \<Rightarrow> jsval" where
  "dig v path = foldl field v path"

text \<open>
  \<^verbatim>\<open>
  const schema = Joi.object({
    data: Joi.object({
      repository: Joi.object({
        object: Joi.object({
          history: Joi.object({ totalCount: nonNegativeInteger }).required(),
        }),
      }).required(),
    }).required(),
  }).required()
  \<close>
  A Joi schema is a predicate on the value validated, \<open>undefined\<close> standing for an
  absent key. \<open>Joi.object(keys)\<close> accepts \<open>undefined\<close> and the objects (not
  \<open>null\<close>, not an array) whose value at each key satisfies that key's schema;
  \<open>.required()\<close> refuses \<open>undefined\<close>. Keys the schema does not name are not looked
  at. \<open>nonNegativeInteger\<close> is imported from \<open>'../validators.js'\<close>, which is not among
  the source files: it is a parameter.
\<close>

definition joiObject :: "(string \<times> (jsval \<Rightarrow> bool)) list \<Rightarrow> jsval \<Rightarrow> bool" where
  "joiObject keys v =
     (case v of
        JUndefined \<Rightarrow> True
      | JObj kvs \<Rightarrow> list_all (\<lambda>(k, s). s (field v k)) keys
      | _ \<Rightarrow> False)"

definition required :: "(jsval \<Rightarrow> bool) \<Rightarrow> jsval \<Rightarrow> bool" where
  "required s v = (v \<noteq> JUndefined \<and> s v)"

definition schema :: "(jsval \<Rightarrow> bool) \<Rightarrow> jsval \<Rightarrow> bool" where
  "schema nonNegativeInteger =
     required (joiObject
       [(''data'', required (joiObject
          [(''repository'', required (joiObject
             [(''object'', joiObject
                [(''history'', required (joiObject
                   [(''totalCount'', nonNegativeInteger)]))])]))]))])"

text \<open>
  A payload that names the repository and carries \<open>null\<close> for the object, as the
  provider answers for a branch that does not exist.
\<close>

definition nullObject :: "jsval \<Rightarrow> bool" where
  "nullObject payload =
     (case dig payload [''data'', ''repository''] of
        JObj repository \<Rightarrow> map_of repository ''object'' = Some JNull
      | _ \<Rightarrow> False)"

text \<open>
  Modelled from the spec: the provider's side of link pagination (section 4.4), which
  no source file implements. A listing of \<open>n\<close> items served in pages of
  \<open>perPage\<close> items has its last page numbered by the number of pages.
\<close>

definition lastPageNumber :: "nat \<Rightarrow> nat \<Rightarrow> nat" where
  "lastPageNumber n perPage = (n + perPage - 1) div perPage"

text \<open>The suffix \<open>render\<close> appends to the label for an author filter.\<close>

definition authorSuffix :: "string option \<Rightarrow> string" where
  "authorSuffix a = (case a of None \<Rightarrow> [] | Some s \<Rightarrow> if s = [] then [] else '' by '' @ s)"

text \<open>The numeric priority of a value, 0 where it has none.\<close>

definition priorityNumber :: "jsval \<Rightarrow> int" where
  "priorityNumber v = (case toNumber (member v ''priority'') of Some p \<Rightarrow> p | None \<Rightarrow> 0)"

section \<open>Properties of transformAuthorFilter\<close>

text \<open>
  Claim C1 (the count from the pagination link: 42 for a last page 42, 1 for no link
  and one item returned, 0 for no items). On the code the second case does not hold:
  when the parser finds no link (its answer is falsy), the result is the number 0
  whatever the body holds, one item included.
\<close>

theorem transformAuthorFilter_no_link:
  assumes "getProp (buffer r) ''message'' = Inr msg" and "msg \<noteq> JStr ''Not Found''"
    and "getProp (res r) ''headers'' = Inr headers" and "getProp headers ''link'' = Inr link"
    and "\<not> truthy (parseLinkHeader link)"
  shows "transformAuthorFilter parseLinkHeader r = Inr (JNum 0)"
  using assms by (simp add: transformAuthorFilter_def andThen_def)

theorem transformAuthorFilter_no_link_witness:
  "transformAuthorFilter (\<lambda>link. if truthy link then JObj [] else JNull)
     \<lparr>res = JObj [(''headers'', JObj [(''content-type'', JStr ''application/json'')])],
      buffer = JArr [JObj [(''sha'', JStr ''0a1b2c'')]]\<rparr> = Inr (JNum 0)"
  by (rule transformAuthorFilter_no_link [where msg = JUndefined
        and headers = "JObj [(''content-type'', JStr ''application/json'')]"
        and link = JUndefined])
     (simp_all add: objGet_def inherited_def objectPrototypeFunctions_def)

text \<open>
  Claim C2 (pagination metadata that is present but unparseable, or lacks the relation
  \<open>last\<close>, gives a classified InvalidResponse failure, never an uncontrolled fault).
  On the code such a response ends in a TypeError: the parser's answer is an object
  without \<open>last\<close>, and \<open>parsed.last.page\<close> reads a property of \<open>undefined\<close>.
\<close>

theorem transformAuthorFilter_no_last:
  assumes "getProp (buffer r) ''message'' = Inr msg" and "msg \<noteq> JStr ''Not Found''"
    and "getProp (res r) ''headers'' = Inr headers" and "getProp headers ''link'' = Inr link"
    and "parseLinkHeader link = JObj rels" and "map_of rels ''last'' = None"
  shows "transformAuthorFilter parseLinkHeader r = Inl TypeError"
  using assms
  by (simp add: transformAuthorFilter_def andThen_def objGet_def inherited_def
        objectPrototypeFunctions_def)

theorem transformAuthorFilter_no_last_witness:
  "transformAuthorFilter
     (\<lambda>link. if truthy link
        then JObj [(''next'', JObj [(''per_page'', JStr ''1''), (''page'', JStr ''2''),
                     (''rel'', JStr ''next'')])]
        else JNull)
     \<lparr>res = JObj [(''headers'', JObj [(''link'', JStr ''<https://api.github.com/repositories/1/commits?per_page=1&page=2>; rel=next'')])],
      buffer = JArr [JObj [(''sha'', JStr ''0a1b2c'')]]\<rparr> = Inl TypeError
   \<and> failureKind (Inl TypeError :: thrown + jsval) \<noteq> Some InvalidResponse"
proof -
  have "transformAuthorFilter
     (\<lambda>link. if truthy link
        then JObj [(''next'', JObj [(''per_page'', JStr ''1''), (''page'', JStr ''2''),
                     (''rel'', JStr ''next'')])]
        else JNull)
     \<lparr>res = JObj [(''headers'', JObj [(''link'', JStr ''<https://api.github.com/repositories/1/commits?per_page=1&page=2>; rel=next'')])],
      buffer = JArr [JObj [(''sha'', JStr ''0a1b2c'')]]\<rparr> = Inl TypeError"
    by (rule transformAuthorFilter_no_last [where msg = JUndefined
        and headers = "JObj [(''link'', JStr ''<https://api.github.com/repositories/1/commits?per_page=1&page=2>; rel=next'')]"
        and link = "JStr ''<https://api.github.com/repositories/1/commits?per_page=1&page=2>; rel=next''"
        and rels = "[(''next'', JObj [(''per_page'', JStr ''1''), (''page'', JStr ''2''),
                     (''rel'', JStr ''next'')])]"])
       (simp_all add: objGet_def)
  then show ?thesis by (simp add: failureKind_def)
qed

text \<open>
  Claim C3 (the count is an integer, never a string). On the code the result for a
  link with a relation \<open>last\<close> is that relation's \<open>page\<close> as the parser gives it,
  with no conversion: a string when the parser gives a string.
\<close>

theorem transformAuthorFilter_page_as_parsed:
  assumes "getProp (buffer r) ''message'' = Inr msg" and "msg \<noteq> JStr ''Not Found''"
    and "getProp (res r) ''headers'' = Inr headers" and "getProp headers ''link'' = Inr link"
    and "parseLinkHeader link = JObj rels" and "map_of rels ''last'' = Some lastRel"
    and "getProp lastRel ''page'' = Inr page"
  shows "transformAuthorFilter parseLinkHeader r = Inr page"
  using assms by (simp add: transformAuthorFilter_def andThen_def objGet_def)

theorem transformAuthorFilter_page_as_parsed_witness:
  "transformAuthorFilter
     (\<lambda>link. if truthy link
        then JObj [(''last'', JObj [(''per_page'', JStr ''1''), (''page'', JStr ''42''),
                     (''rel'', JStr ''last'')])]
        else JNull)
     \<lparr>res = JObj [(''headers'', JObj [(''link'', JStr ''<https://api.github.com/repositories/1/commits?per_page=1&page=42>; rel=last'')])],
      buffer = JArr [JObj [(''sha'', JStr ''0a1b2c'')]]\<rparr> = Inr (JStr ''42'')"
  by (rule transformAuthorFilter_page_as_parsed [where msg = JUndefined
        and headers = "JObj [(''link'', JStr ''<https://api.github.com/repositories/1/commits?per_page=1&page=42>; rel=last'')]"
        and link = "JStr ''<https://api.github.com/repositories/1/commits?per_page=1&page=42>; rel=last''"
        and rels = "[(''last'', JObj [(''per_page'', JStr ''1''), (''page'', JStr ''42''),
                     (''rel'', JStr ''last'')])]"
        and lastRel = "JObj [(''per_page'', JStr ''1''), (''page'', JStr ''42''),
                     (''rel'', JStr ''last'')]"])
     (simp_all add: objGet_def)

text \<open>
  Claim C4 (a not-found-equivalent response is classified NotFound, not
  InvalidResponse). The code's own guard classifies the body message \<open>Not Found\<close> as
  InvalidResponse, with the message \<open>invalid branch\<close>: the claim fails at such a body.
\<close>

theorem transformAuthorFilter_not_found_counterexample:
  "failureKind (transformAuthorFilter (\<lambda>link. JNull)
     \<lparr>res = JObj [(''headers'', JObj [])],
      buffer = JObj [(''message'', JStr ''Not Found'')]\<rparr>) \<noteq> Some NotFound"
  by (simp add: transformAuthorFilter_def andThen_def objGet_def failureKind_def)

text \<open>
  Claim C4, amended: a response whose body message is \<open>Not Found\<close> is classified by
  transformAuthorFilter as InvalidResponse with the message \<open>invalid branch\<close>,
  whatever else the response holds.
\<close>

theorem transformAuthorFilter_not_found:
  assumes "getProp (buffer r) ''message'' = Inr (JStr ''Not Found'')"
  shows "transformAuthorFilter parseLinkHeader r = Inl (Failure InvalidResponse ''invalid branch'')
    \<and> failureKind (transformAuthorFilter parseLinkHeader r) = Some InvalidResponse"
  using assms by (simp add: transformAuthorFilter_def andThen_def failureKind_def)

theorem transformAuthorFilter_not_found_witness:
  "transformAuthorFilter (\<lambda>link. JNull)
     \<lparr>res = JObj [(''headers'', JObj [])],
      buffer = JObj [(''message'', JStr ''Not Found'')]\<rparr>
     = Inl (Failure InvalidResponse ''invalid branch'')"
  using transformAuthorFilter_not_found [of
     "\<lparr>res = JObj [(''headers'', JObj [])], buffer = JObj [(''message'', JStr ''Not Found'')]\<rparr>"
     "\<lambda>link. JNull"]
  by (simp add: objGet_def)

section \<open>Properties of the Date operations\<close>

lemma MonthFromTime_range: "0 \<le> MonthFromTime t \<and> MonthFromTime t \<le> 11"
  by (simp add: MonthFromTime_def Let_def)

lemma MakeDay_month_of:
  "MakeDay year (MonthFromTime t) date =
     DayFromYear year + monthStart (MonthFromTime t) (leapDays year) + date - 1"
proof -
  from MonthFromTime_range [of t]
  have "MonthFromTime t div 12 = 0" and "MonthFromTime t mod 12 = MonthFromTime t"
    by simp_all
  then show ?thesis
    by (simp add: MakeDay_def Let_def)
qed

lemma Day_decomposition:
  "Day t = DayFromYear (YearFromTime t)
     + monthStart (MonthFromTime t) (leapDays (YearFromTime t)) + DateFromTime t - 1"
  by (simp add: DateFromTime_def DayWithinYear_def InLeapYear_def)

lemma MakeDate_Day: "MakeDate (Day t + k) (TimeWithinDay t) = t + k * msPerDay"
proof -
  have "t = Day t * msPerDay + TimeWithinDay t"
    by (simp add: Day_def TimeWithinDay_def)
  then show ?thesis
    by (simp add: MakeDate_def algebra_simps)
qed

text \<open>Moving the day of the month moves the time value by whole days.\<close>

lemma setUTCDate_shift: "setUTCDate t (getUTCDate t - k) = TimeClip (t - k * msPerDay)"
proof -
  have "MakeDay (YearFromTime t) (MonthFromTime t) (DateFromTime t - k) = Day t + (- k)"
    using Day_decomposition [of t] by (simp add: MakeDay_month_of)
  then show ?thesis
    using MakeDate_Day [of t "- k"] by (simp add: setUTCDate_def getUTCDate_def)
qed

lemma DayFromYear_step:
  "364 \<le> DayFromYear y - DayFromYear (y - 1) \<and> DayFromYear y - DayFromYear (y - 1) \<le> 367"
proof -
  define a where "a = (y - 1969) div 4 - (y - 1 - 1969) div 4"
  define b where "b = (y - 1901) div 100 - (y - 1 - 1901) div 100"
  define c where "c = (y - 1601) div 400 - (y - 1 - 1601) div 400"
  have "0 \<le> a \<and> a \<le> 1"
    unfolding a_def by linarith
  moreover have "0 \<le> b \<and> b \<le> 1"
    unfolding b_def by linarith
  moreover have "0 \<le> c \<and> c \<le> 1"
    unfolding c_def by linarith
  moreover have "DayFromYear y - DayFromYear (y - 1) = 365 + a - b + c"
    unfolding DayFromYear_def a_def b_def c_def by (simp add: algebra_simps)
  ultimately show ?thesis
    by simp
qed

lemma monthStart_leap:
  "monthStart m (leapDays y) - monthStart m (leapDays y') \<le> 1
   \<and> - 1 \<le> monthStart m (leapDays y) - monthStart m (leapDays y')"
  by (simp add: monthStart_def leapDays_def)

text \<open>Setting the year one back moves the time value back by 363 to 368 days.\<close>

lemma setUTCFullYear_back:
  "\<exists>k. 363 \<le> k \<and> k \<le> 368
     \<and> setUTCFullYear t (getUTCFullYear t - 1) = TimeClip (t - k * msPerDay)"
proof -
  define k where "k = Day t - MakeDay (YearFromTime t - 1) (MonthFromTime t) (DateFromTime t)"
  have "k = (DayFromYear (YearFromTime t) - DayFromYear (YearFromTime t - 1))
      + (monthStart (MonthFromTime t) (leapDays (YearFromTime t))
         - monthStart (MonthFromTime t) (leapDays (YearFromTime t - 1)))"
    unfolding k_def MakeDay_month_of using Day_decomposition [of t] by simp
  with DayFromYear_step [of "YearFromTime t"]
    monthStart_leap [of "MonthFromTime t" "YearFromTime t" "YearFromTime t - 1"]
  have "363 \<le> k \<and> k \<le> 368"
    by linarith
  moreover have "MakeDay (YearFromTime t - 1) (MonthFromTime t) (DateFromTime t) = Day t + (- k)"
    by (simp add: k_def)
  then have "setUTCFullYear t (getUTCFullYear t - 1) = TimeClip (t - k * msPerDay)"
    using MakeDate_Day [of t "- k"] by (simp add: setUTCFullYear_def getUTCFullYear_def)
  ultimately show ?thesis by blast
qed

lemma toISOString_valid: "\<exists>s. toISOString (Some t) = Inr s"
  by (simp add: toISOString_def Let_def)

lemma TimeClip_back:
  assumes "0 \<le> now" and "now \<le> 8640000000000000" and "0 \<le> k" and "k \<le> 368"
  shows "TimeClip (now - k * msPerDay) = Some (now - k * msPerDay)"
proof -
  from assms have "0 \<le> k * msPerDay" and "k * msPerDay \<le> 368 * msPerDay"
    by (simp_all add: msPerDay_def)
  with assms show ?thesis
    by (simp add: TimeClip_def msPerDay_def abs_if)
qed

text \<open>
  At every clock reading from 1970 to the end of the Date range the start date is
  computed: no RangeError.
\<close>

lemma start_date_computed:
  assumes "0 \<le> now" and "now \<le> 8640000000000000"
  shows "\<exists>start. getIntervalQueryStartDate now interval = Inr start"
proof -
  obtain k where k: "363 \<le> k" "k \<le> 368"
    and y: "setUTCFullYear now (getUTCFullYear now - 1) = TimeClip (now - k * msPerDay)"
    using setUTCFullYear_back [of now] by blast
  from k assms have "TimeClip (now - k * msPerDay) = Some (now - k * msPerDay)"
    by (intro TimeClip_back) simp_all
  moreover from assms have "TimeClip (now - 30 * msPerDay) = Some (now - 30 * msPerDay)"
    by (intro TimeClip_back) simp_all
  moreover from assms have "TimeClip (now - 7 * msPerDay) = Some (now - 7 * msPerDay)"
    by (intro TimeClip_back) simp_all
  ultimately show ?thesis
    using toISOString_valid [of "now - k * msPerDay"] toISOString_valid [of "now - 30 * msPerDay"]
      toISOString_valid [of "now - 7 * msPerDay"]
    by (auto simp: getIntervalQueryStartDate_def andThen_def y setUTCDate_shift)
qed

section \<open>Properties of the requests\<close>

text \<open>Clock readings used at concrete inputs: 1700000000000 is 2023-11-14T22:13:20Z.\<close>

lemma start_date_month_example:
  "getIntervalQueryStartDate 1700000000000 ''m'' = Inr (JStr ''2023-10-15T22:13:20.000Z'')"
  by code_simp

lemma start_date_week_example:
  "getIntervalQueryStartDate 1700000000000 ''w'' = Inr (JStr ''2023-11-07T22:13:20.000Z'')"
  by code_simp

lemma start_date_week_later_example:
  "getIntervalQueryStartDate 1700000000001 ''w'' = Inr (JStr ''2023-11-07T22:13:20.001Z'')"
  by code_simp

lemma fetchAuthorFilter_cases:
  "fetchAuthorFilter now interval user repo branch authorFilter =
     (case getIntervalQueryStartDate now interval of
        Inl e \<Rightarrow> Inl e
      | Inr start \<Rightarrow>
          Inr \<lparr>url = ''/repos/'' @ user @ ''/'' @ repo @ ''/commits'',
               searchParams =
                 \<lparr>sha = orHEAD branch, author = authorFilter, per_page = ''1'',
                  since = (if truthy start then start else JUndefined)\<rparr>,
               errorMessages = ''repo not found''\<rparr>)"
  by (simp add: fetchAuthorFilter_def andThen_def split: sum.split)

text \<open>
  Claim C5: every request fetchAuthorFilter builds asks for a page size of exactly 1,
  the string \<open>'1'\<close>, the number 1; and at page size 1 the number of the last page of a
  listing is its number of items.
\<close>

theorem fetchAuthorFilter_page_size:
  assumes "fetchAuthorFilter now interval user repo branch authorFilter = Inr req"
  shows "per_page (searchParams req) = ''1''
    \<and> stringToNumber (per_page (searchParams req)) = Some 1
    \<and> (\<forall>n. lastPageNumber n 1 = n)"
proof -
  from assms have "per_page (searchParams req) = ''1''"
    by (auto simp: fetchAuthorFilter_cases split: sum.splits)
  moreover have "stringToNumber ''1'' = Some 1"
    by (simp add: stringToNumber_def digitValue_def)
  ultimately show ?thesis
    by (simp add: lastPageNumber_def)
qed

theorem fetchAuthorFilter_page_size_witness:
  "fetchAuthorFilter 1700000000000 ''m'' ''badges'' ''shields'' None (Some ''chris48s'') =
     Inr \<lparr>url = ''/repos/badges/shields/commits'',
          searchParams =
            \<lparr>sha = ''HEAD'', author = Some ''chris48s'', per_page = ''1'',
             since = JStr ''2023-10-15T22:13:20.000Z''\<rparr>,
          errorMessages = ''repo not found''\<rparr>
   \<and> per_page (searchParams
        \<lparr>url = ''/repos/badges/shields/commits'',
          searchParams =
            \<lparr>sha = ''HEAD'', author = Some ''chris48s'', per_page = ''1'',
             since = JStr ''2023-10-15T22:13:20.000Z''\<rparr>,
          errorMessages = ''repo not found''\<rparr>) = ''1''"
proof -
  have built: "fetchAuthorFilter 1700000000000 ''m'' ''badges'' ''shields'' None (Some ''chris48s'') =
     Inr \<lparr>url = ''/repos/badges/shields/commits'',
          searchParams =
            \<lparr>sha = ''HEAD'', author = Some ''chris48s'', per_page = ''1'',
             since = JStr ''2023-10-15T22:13:20.000Z''\<rparr>,
          errorMessages = ''repo not found''\<rparr>"
    by (simp add: fetchAuthorFilter_cases start_date_month_example orHEAD_def)
  from fetchAuthorFilter_page_size [OF built] built show ?thesis
    by simp
qed

text \<open>
  Claim C6 (the count operation issues exactly one additional request beyond the
  initial one and never loops). The code hands one request to the base class and no
  second one: at the input below the list of requests has length 1, not 2.
\<close>

theorem handle_requests_counterexample:
  "length (fst (handle
      \<lparr>request_rest = (\<lambda>req. Inr
          \<lparr>res = JObj [(''headers'', JObj [(''link'', JStr ''<https://api.github.com/repositories/1/commits?per_page=1&page=42>; rel=last'')])],
           buffer = JArr [JObj [(''sha'', JStr ''0a1b2c'')]]\<rparr>),
       request_graphql = (\<lambda>vars. Inl (Failure InvalidResponse ''unused'')),
       parse_link_header = (\<lambda>link. JObj [(''last'', JObj [(''page'', JStr ''42'')])]),
       metric_formatter = toStringJS,
       constructor_defaultBadgeData = defaultBadgeData\<rparr>
      1700000000000 ''m'' ''badges'' ''shields'' None (Some ''chris48s'') [])) \<noteq> 1 + 1"
  by (simp add: handle_def given_def fetchAuthorFilter_step_def this_request_def
        fetchAuthorFilter_cases start_date_month_example)

text \<open>The requests handle leaves in the state, by the outcome of the start date.\<close>

lemma handle_log_computed:
  assumes "getIntervalQueryStartDate now interval = Inr start"
  shows "fst (handle rt now interval user repo branch authorFilter log) =
     log @ [if given authorFilter
            then Rest \<lparr>url = ''/repos/'' @ user @ ''/'' @ repo @ ''/commits'',
                       searchParams =
                         \<lparr>sha = orHEAD branch, author = authorFilter, per_page = ''1'',
                          since = (if truthy start then start else JUndefined)\<rparr>,
                       errorMessages = ''repo not found''\<rparr>
            else Graphql \<lparr>var_user = user, var_repo = repo, var_branch = orHEAD branch,
                          var_since = start\<rparr>]"
  using assms
  by (simp add: handle_def fetchAuthorFilter_step_def fetch_step_def this_request_def
        this_requestGraphql_def fetchAuthorFilter_cases fetch_def andThen_def)

lemma handle_log_thrown:
  assumes "getIntervalQueryStartDate now interval = Inl e"
  shows "fst (handle rt now interval user repo branch authorFilter log) = log"
  using assms
  by (simp add: handle_def fetchAuthorFilter_step_def fetch_step_def
        fetchAuthorFilter_cases fetch_def andThen_def)

text \<open>
  Claim C6, amended: for every input, handle hands at most one request to the base
  class: the page-size-1 listing request when an author filter is given, the GraphQL
  request otherwise. It hands exactly that one whenever the start date is computed
  (always for the interval \<open>t\<close>, which computes none, and for every interval at every
  clock reading from 1970 to the end of the Date range), and none when computing the
  start date throws. There is no request beyond it and no loop: the requests handed
  over are the same whatever the base class resolves to, so their number does not
  depend on what the responses hold.
\<close>

theorem handle_requests:
  "(\<forall>start. getIntervalQueryStartDate now interval = Inr start \<longrightarrow>
      fst (handle rt now interval user repo branch authorFilter log) =
        log @ [if given authorFilter
               then Rest \<lparr>url = ''/repos/'' @ user @ ''/'' @ repo @ ''/commits'',
                          searchParams =
                            \<lparr>sha = orHEAD branch, author = authorFilter, per_page = ''1'',
                             since = (if truthy start then start else JUndefined)\<rparr>,
                          errorMessages = ''repo not found''\<rparr>
               else Graphql \<lparr>var_user = user, var_repo = repo, var_branch = orHEAD branch,
                             var_since = start\<rparr>])
   \<and> (\<forall>e. getIntervalQueryStartDate now interval = Inl e \<longrightarrow>
         fst (handle rt now interval user repo branch authorFilter log) = log)
   \<and> length (fst (handle rt now interval user repo branch authorFilter log)) \<le> length log + 1
   \<and> length (fst (handle rt now ''t'' user repo branch authorFilter log)) = length log + 1
   \<and> (0 \<le> now \<and> now \<le> 8640000000000000 \<longrightarrow>
         length (fst (handle rt now interval user repo branch authorFilter log)) = length log + 1)
   \<and> fst (handle rt now interval user repo branch authorFilter log)
        = fst (handle rt' now interval user repo branch authorFilter log)"
proof -
  have one: "length (fst (handle rt now' interval' user repo branch authorFilter log)) = length log + 1"
    if "getIntervalQueryStartDate now' interval' = Inr start" for now' interval' start
    by (simp add: handle_log_computed [OF that])
  have most: "length (fst (handle rt now interval user repo branch authorFilter log)) \<le> length log + 1"
  proof (cases "getIntervalQueryStartDate now interval")
    case (Inl e)
    then show ?thesis by (simp add: handle_log_thrown)
  next
    case (Inr start)
    then show ?thesis by (simp add: one)
  qed
  have same: "fst (handle rt now interval user repo branch authorFilter log)
        = fst (handle rt' now interval user repo branch authorFilter log)"
  proof (cases "getIntervalQueryStartDate now interval")
    case (Inl e)
    then show ?thesis by (simp add: handle_log_thrown)
  next
    case (Inr start)
    then show ?thesis by (simp only: handle_log_computed)
  qed
  have "getIntervalQueryStartDate now ''t'' = Inr JNull"
    by (simp add: getIntervalQueryStartDate_def)
  then have t: "length (fst (handle rt now ''t'' user repo branch authorFilter log)) = length log + 1"
    by (rule one)
  have range: "length (fst (handle rt now interval user repo branch authorFilter log)) = length log + 1"
    if "0 \<le> now" and "now \<le> 8640000000000000"
    using start_date_computed [OF that, of interval] one by blast
  from most same t range show ?thesis
    using handle_log_computed [of now interval _ rt user repo branch authorFilter log]
      handle_log_thrown [of now interval _ rt user repo branch authorFilter log]
    by blast
qed

theorem handle_requests_witness:
  "getIntervalQueryStartDate 1700000000000 ''m'' = Inr (JStr ''2023-10-15T22:13:20.000Z'')
   \<and> fst (handle
      \<lparr>request_rest = (\<lambda>req. Inr
          \<lparr>res = JObj [(''headers'', JObj [(''link'', JStr ''<https://api.github.com/repositories/1/commits?per_page=1&page=42>; rel=last'')])],
           buffer = JArr [JObj [(''sha'', JStr ''0a1b2c'')]]\<rparr>),
       request_graphql = (\<lambda>vars. Inl (Failure InvalidResponse ''unused'')),
       parse_link_header = (\<lambda>link. JObj [(''last'', JObj [(''page'', JStr ''42'')])]),
       metric_formatter = toStringJS,
       constructor_defaultBadgeData = defaultBadgeData\<rparr>
      1700000000000 ''m'' ''badges'' ''shields'' None (Some ''chris48s'') [])
     = [Rest \<lparr>url = ''/repos/badges/shields/commits'',
              searchParams =
                \<lparr>sha = ''HEAD'', author = Some ''chris48s'', per_page = ''1'',
                 since = JStr ''2023-10-15T22:13:20.000Z''\<rparr>,
              errorMessages = ''repo not found''\<rparr>]"
  using handle_requests [of 1700000000000 "''m''"
      "\<lparr>request_rest = (\<lambda>req. Inr
          \<lparr>res = JObj [(''headers'', JObj [(''link'', JStr ''<https://api.github.com/repositories/1/commits?per_page=1&page=42>; rel=last'')])],
           buffer = JArr [JObj [(''sha'', JStr ''0a1b2c'')]]\<rparr>),
       request_graphql = (\<lambda>vars. Inl (Failure InvalidResponse ''unused'')),
       parse_link_header = (\<lambda>link. JObj [(''last'', JObj [(''page'', JStr ''42'')])]),
       metric_formatter = toStringJS,
       constructor_defaultBadgeData = defaultBadgeData\<rparr>"
      "''badges''" "''shields''" None "Some ''chris48s''" "[]"]
    start_date_month_example
  by (simp add: given_def orHEAD_def)

section \<open>Properties of getIntervalQueryStartDate and render\<close>

text \<open>
  Claim C7 (every transform is deterministic; getIntervalQueryStartDate gives the same
  result for the same interval in any two runs). The function reads the clock: two
  runs one millisecond apart differ.
\<close>

theorem getIntervalQueryStartDate_clock_counterexample:
  "getIntervalQueryStartDate 1700000000000 ''w'' \<noteq> getIntervalQueryStartDate 1700000000001 ''w''"
  by (simp add: start_date_week_example start_date_week_later_example)

text \<open>
  Claim C7, amended: getIntervalQueryStartDate gives the same result in any two runs
  for the interval \<open>t\<close> (null, at any clock reading); for the other intervals the
  result is determined by the interval and the clock reading of the run, so two runs
  that read the same instant agree: it is the ISO string of the instant 7 days before
  the reading for \<open>w\<close>, and 30 days before it for \<open>m\<close> and \<open>4w\<close>.
\<close>

theorem getIntervalQueryStartDate_total_interval:
  "getIntervalQueryStartDate now1 ''t'' = getIntervalQueryStartDate now2 ''t''
   \<and> getIntervalQueryStartDate now1 ''t'' = Inr JNull
   \<and> (now1 = now2 \<longrightarrow>
        getIntervalQueryStartDate now1 interval = getIntervalQueryStartDate now2 interval)
   \<and> getIntervalQueryStartDate now1 ''w''
        = andThen (toISOString (TimeClip (now1 - 7 * msPerDay))) (\<lambda>s. Inr (JStr s))
   \<and> getIntervalQueryStartDate now1 ''m''
        = andThen (toISOString (TimeClip (now1 - 30 * msPerDay))) (\<lambda>s. Inr (JStr s))
   \<and> getIntervalQueryStartDate now1 ''4w''
        = andThen (toISOString (TimeClip (now1 - 30 * msPerDay))) (\<lambda>s. Inr (JStr s))"
proof -
  have "getIntervalQueryStartDate now1 ''t'' = Inr JNull"
    and "getIntervalQueryStartDate now2 ''t'' = Inr JNull"
    by (simp_all add: getIntervalQueryStartDate_def)
  moreover have "getIntervalQueryStartDate now1 ''w''
        = andThen (toISOString (TimeClip (now1 - 7 * msPerDay))) (\<lambda>s. Inr (JStr s))"
    using setUTCDate_shift [of now1 7] by (simp add: getIntervalQueryStartDate_def)
  moreover have "getIntervalQueryStartDate now1 ''m''
        = andThen (toISOString (TimeClip (now1 - 30 * msPerDay))) (\<lambda>s. Inr (JStr s))"
    and "getIntervalQueryStartDate now1 ''4w''
        = andThen (toISOString (TimeClip (now1 - 30 * msPerDay))) (\<lambda>s. Inr (JStr s))"
    using setUTCDate_shift [of now1 30] by (simp_all add: getIntervalQueryStartDate_def)
  ultimately show ?thesis by simp
qed

theorem getIntervalQueryStartDate_total_interval_witness:
  "getIntervalQueryStartDate 1700000000000 ''t'' = getIntervalQueryStartDate 0 ''t''
   \<and> getIntervalQueryStartDate 1700000000000 ''t'' = Inr JNull"
  using getIntervalQueryStartDate_total_interval [of 1700000000000 0 "''t''"]
  by blast

text \<open>What render returns, by the label the receiver's table holds.\<close>

lemma render_result:
  assumes "interval = ''t'' \<or> getProp thisDefaultBadgeData ''label'' = Inr l"
  shows "render metric thisDefaultBadgeData interval commitCount authorFilter =
     Inr \<lparr>label = (if interval = ''t'' then ''commits'' else toStringJS l)
                     @ authorSuffix authorFilter,
          message = metric commitCount @ toStringJS (objGet intervalLabels interval)\<rparr>"
proof -
  have "(case authorFilter of None \<Rightarrow> [] | Some a \<Rightarrow> if given authorFilter then '' by '' @ a else [])
      = authorSuffix authorFilter"
    by (simp add: authorSuffix_def given_def split: option.split)
  with assms show ?thesis
    by (auto simp: render_def andThen_def Let_def)
qed

text \<open>
  On a receiver whose table has no label, as a class has it from a base class that
  declares none while its own static fields are still being initialised (the calls of
  lines 45 and 60), the label of every interval but \<open>t\<close> starts with \<open>undefined\<close>;
  where the receiver has no table at all, the read raises a TypeError.
\<close>

lemma render_without_label:
  assumes "map_of table ''label'' = None" and "interval \<noteq> ''t''"
  shows "render metric (JObj table) interval commitCount authorFilter =
     Inr \<lparr>label = ''undefined'' @ authorSuffix authorFilter,
          message = metric commitCount @ toStringJS (objGet intervalLabels interval)\<rparr>"
proof -
  from assms(1) have "getProp (JObj table) ''label'' = Inr JUndefined"
    by (simp add: objGet_def inherited_def objectPrototypeFunctions_def)
  from render_result [OF disjI2, OF this] assms(2) show ?thesis
    by simp
qed

lemma render_without_table:
  assumes "interval \<noteq> ''t''"
  shows "render metric JUndefined interval commitCount authorFilter = Inl TypeError"
  using assms by (simp add: render_def andThen_def)

text \<open>
  Claim C10: on a receiver that carries the class's table (line 66), as in every call
  from handle on the class, for every interval among t, y, m, 4w, w, the label is
  \<open>commits\<close> (with the author suffix) exactly when the interval is \<open>t\<close>, and
  \<open>commit activity\<close> (with the author suffix) otherwise; the message is the formatted
  count with the suffix of the interval; the message suffixes of \<open>m\<close> and \<open>4w\<close> are
  \<open>/month\<close> and \<open>/four weeks\<close> and differ, while both intervals give the same start
  date: the clock reading with its day of the month moved back by 30, which is the
  instant 30 days earlier.
\<close>

theorem render_labels:
  assumes "interval \<in> set [''t'', ''y'', ''m'', ''4w'', ''w'']"
    and "thisDefaultBadgeData = defaultBadgeData"
  shows "\<exists>b bm b4w.
      render metric thisDefaultBadgeData interval commitCount authorFilter = Inr b
    \<and> render metric thisDefaultBadgeData ''m'' commitCount authorFilter = Inr bm
    \<and> render metric thisDefaultBadgeData ''4w'' commitCount authorFilter = Inr b4w
    \<and> (label b = ''commits'' @ authorSuffix authorFilter) = (interval = ''t'')
    \<and> (interval \<noteq> ''t'' \<longrightarrow> label b = ''commit activity'' @ authorSuffix authorFilter)
    \<and> message b
         = metric commitCount @
            (if interval = ''t'' then []
             else if interval = ''y'' then ''/year''
             else if interval = ''m'' then ''/month''
             else if interval = ''4w'' then ''/four weeks''
             else ''/week'')
    \<and> message bm = metric commitCount @ ''/month''
    \<and> message b4w = metric commitCount @ ''/four weeks''
    \<and> message bm \<noteq> message b4w
    \<and> getIntervalQueryStartDate now ''m'' = getIntervalQueryStartDate now ''4w''
    \<and> getIntervalQueryStartDate now ''m''
         = andThen (toISOString (setUTCDate now (getUTCDate now - 30))) (\<lambda>s. Inr (JStr s))
    \<and> setUTCDate now (getUTCDate now - 30) = TimeClip (now - 30 * msPerDay)"
proof -
  have l: "getProp thisDefaultBadgeData ''label'' = Inr (JStr ''commit activity'')"
    by (simp add: assms(2) defaultBadgeData_def objGet_def)
  note r = render_result [OF disjI2, OF l]
  have sfx: "toStringJS (objGet intervalLabels interval) =
            (if interval = ''t'' then []
             else if interval = ''y'' then ''/year''
             else if interval = ''m'' then ''/month''
             else if interval = ''4w'' then ''/four weeks''
             else ''/week'')"
    using assms(1) by (auto simp: objGet_def intervalLabels_def)
  have m: "toStringJS (objGet intervalLabels ''m'') = ''/month''"
    and w4: "toStringJS (objGet intervalLabels ''4w'') = ''/four weeks''"
    by (simp_all add: objGet_def intervalLabels_def)
  have d: "getIntervalQueryStartDate now ''m'' = getIntervalQueryStartDate now ''4w''"
    "getIntervalQueryStartDate now ''m''
         = andThen (toISOString (setUTCDate now (getUTCDate now - 30))) (\<lambda>s. Inr (JStr s))"
    by (simp_all add: getIntervalQueryStartDate_def)
  show ?thesis
    using d setUTCDate_shift [of now 30]
    by (simp add: r sfx m w4)
qed

theorem render_labels_witness:
  "''4w'' \<in> set [''t'', ''y'', ''m'', ''4w'', ''w'']
   \<and> render toStringJS defaultBadgeData ''4w'' (JNum 457) (Some ''chris48s'')
       = Inr \<lparr>label = ''commit activity by chris48s'', message = ''457/four weeks''\<rparr>
   \<and> render toStringJS defaultBadgeData ''m'' (JNum 457) (Some ''chris48s'')
       = Inr \<lparr>label = ''commit activity by chris48s'', message = ''457/month''\<rparr>"
proof -
  have mem: "''4w'' \<in> set [''t'', ''y'', ''m'', ''4w'', ''w'']" by simp
  have mem': "''m'' \<in> set [''t'', ''y'', ''m'', ''4w'', ''w'']" by simp
  from render_labels [OF mem refl, of toStringJS "JNum 457" "Some ''chris48s''" 0]
  obtain b where b: "render toStringJS defaultBadgeData ''4w'' (JNum 457) (Some ''chris48s'') = Inr b"
    and lb: "label b = ''commit activity'' @ authorSuffix (Some ''chris48s'')"
    and mb: "message b = toStringJS (JNum 457) @ ''/four weeks''"
    by auto
  from render_labels [OF mem' refl, of toStringJS "JNum 457" "Some ''chris48s''" 0]
  obtain bm where bm: "render toStringJS defaultBadgeData ''m'' (JNum 457) (Some ''chris48s'') = Inr bm"
    and lm: "label bm = ''commit activity'' @ authorSuffix (Some ''chris48s'')"
    and mm: "message bm = toStringJS (JNum 457) @ ''/month''"
    by auto
  from lb mb have "b = \<lparr>label = ''commit activity by chris48s'', message = ''457/four weeks''\<rparr>"
    by (cases b) (simp add: authorSuffix_def)
  moreover from lm mm
  have "bm = \<lparr>label = ''commit activity by chris48s'', message = ''457/month''\<rparr>"
    by (cases bm) (simp add: authorSuffix_def)
  ultimately show ?thesis
    using mem b bm by simp
qed

section \<open>Properties of transform\<close>

lemma required_joiObject:
  assumes "required (joiObject keys) v"
  obtains kvs where "v = JObj kvs" and "list_all (\<lambda>(k, s). s (field v k)) keys"
  using assms by (cases v) (auto simp: required_def joiObject_def)

lemma objGet_field:
  assumes "k \<notin> set objectPrototypeFunctions" and "k \<noteq> ''__proto__''"
  shows "objGet kvs k = field (JObj kvs) k"
  using assms by (simp add: objGet_def inherited_def split: option.split)

lemma objGet_data: "objGet kvs ''data'' = field (JObj kvs) ''data''"
  by (rule objGet_field) (simp_all add: objectPrototypeFunctions_def)

lemma objGet_repository:
  "objGet kvs ''repository'' = field (JObj kvs) ''repository''"
  by (rule objGet_field) (simp_all add: objectPrototypeFunctions_def)

lemma objGet_object: "objGet kvs ''object'' = field (JObj kvs) ''object''"
  by (rule objGet_field) (simp_all add: objectPrototypeFunctions_def)

lemma objGet_history: "objGet kvs ''history'' = field (JObj kvs) ''history''"
  by (rule objGet_field) (simp_all add: objectPrototypeFunctions_def)

lemma objGet_totalCount:
  "objGet kvs ''totalCount'' = field (JObj kvs) ''totalCount''"
  by (rule objGet_field) (simp_all add: objectPrototypeFunctions_def)

lemmas objGet_payload =
  objGet_data objGet_repository objGet_object objGet_history objGet_totalCount

lemma transform_schema:
  assumes "schema nonNegativeInteger payload"
  shows "transform payload =
     (if dig payload [''data'', ''repository'', ''object''] = JUndefined
      then Inl (Failure InvalidResponse ''invalid branch'')
      else Inr (dig payload [''data'', ''repository'', ''object'', ''history'', ''totalCount'']))"
    and "dig payload [''data'', ''repository'', ''object''] \<noteq> JNull"
proof -
  from assms obtain top where top: "payload = JObj top"
    and 1: "required (joiObject
          [(''repository'', required (joiObject
             [(''object'', joiObject
                [(''history'', required (joiObject
                   [(''totalCount'', nonNegativeInteger)]))])]))]) (field payload ''data'')"
    unfolding schema_def by (rule required_joiObject) simp
  from 1 obtain d where d: "field payload ''data'' = JObj d"
    and 2: "required (joiObject
             [(''object'', joiObject
                [(''history'', required (joiObject
                   [(''totalCount'', nonNegativeInteger)]))])])
            (field (field payload ''data'') ''repository'')"
    by (rule required_joiObject) simp
  from 2 obtain r where r: "field (JObj d) ''repository'' = JObj r"
    and 3: "joiObject [(''history'', required (joiObject [(''totalCount'', nonNegativeInteger)]))]
            (field (JObj r) ''object'')"
    unfolding d by (rule required_joiObject) simp
  show "dig payload [''data'', ''repository'', ''object''] \<noteq> JNull"
    using 3 d r by (auto simp: dig_def top joiObject_def simp del: field.simps)
  show "transform payload =
     (if dig payload [''data'', ''repository'', ''object''] = JUndefined
      then Inl (Failure InvalidResponse ''invalid branch'')
      else Inr (dig payload [''data'', ''repository'', ''object'', ''history'', ''totalCount'']))"
  proof (cases "field (JObj r) ''object'' = JUndefined")
    case True
    then show ?thesis
      using d r
      by (simp add: transform_def andThen_def dig_def top objGet_payload del: field.simps)
  next
    case False
    with 3 obtain ob where ob: "field (JObj r) ''object'' = JObj ob"
      and 4: "required (joiObject [(''totalCount'', nonNegativeInteger)])
               (field (JObj ob) ''history'')"
      by (cases "field (JObj r) ''object''") (auto simp: joiObject_def simp del: field.simps)
    from 4 obtain h where h: "field (JObj ob) ''history'' = JObj h"
      by (rule required_joiObject)
    show ?thesis
      using d r ob h
      by (simp add: transform_def andThen_def dig_def top objGet_payload del: field.simps)
  qed
qed

lemma transform_nullObject:
  assumes "nullObject payload"
  shows "transform payload = Inl (Failure InvalidResponse ''invalid branch'')"
    and "dig payload [''data'', ''repository'', ''object''] = JNull"
proof -
  from assms obtain r where r: "dig payload [''data'', ''repository''] = JObj r"
    and ob: "map_of r ''object'' = Some JNull"
    by (auto simp: nullObject_def split: jsval.splits)
  from r obtain d where d: "field payload ''data'' = JObj d"
    by (cases "field payload ''data''") (simp_all add: dig_def)
  then obtain top where top: "payload = JObj top"
    by (cases payload) simp_all
  from r d have r': "field (JObj d) ''repository'' = JObj r"
    by (simp add: dig_def)
  from ob have ob': "field (JObj r) ''object'' = JNull"
    by simp
  show "dig payload [''data'', ''repository'', ''object''] = JNull"
    using d r' ob' by (simp add: dig_def del: field.simps)
  show "transform payload = Inl (Failure InvalidResponse ''invalid branch'')"
    using d r' ob'
    by (simp add: transform_def andThen_def top objGet_payload del: field.simps)
qed

text \<open>
  Claim C8: for every validated payload (and for a payload that carries \<open>null\<close> for
  the object), transform throws InvalidResponse with the message \<open>invalid branch\<close>
  if and only if \<open>data.repository.object\<close> is null or absent, and otherwise returns
  \<open>data.repository.object.history.totalCount\<close> unchanged.
\<close>

theorem transform_validated:
  assumes "schema nonNegativeInteger payload \<or> nullObject payload"
  shows "(transform payload = Inl (Failure InvalidResponse ''invalid branch''))
       = (dig payload [''data'', ''repository'', ''object''] \<in> {JUndefined, JNull})
    \<and> (dig payload [''data'', ''repository'', ''object''] \<notin> {JUndefined, JNull} \<longrightarrow>
         transform payload =
           Inr (dig payload [''data'', ''repository'', ''object'', ''history'', ''totalCount'']))"
  using assms
proof
  assume "schema nonNegativeInteger payload"
  from transform_schema [OF this] show ?thesis by simp
next
  assume "nullObject payload"
  from transform_nullObject [OF this] show ?thesis by simp
qed

theorem transform_validated_witness:
  "schema (\<lambda>v. case v of JNum n \<Rightarrow> 0 \<le> n | _ \<Rightarrow> False)
     (JObj [(''data'', JObj [(''repository'', JObj [(''object'',
        JObj [(''history'', JObj [(''totalCount'', JNum 457)])])])])])
   \<and> transform
     (JObj [(''data'', JObj [(''repository'', JObj [(''object'',
        JObj [(''history'', JObj [(''totalCount'', JNum 457)])])])])]) = Inr (JNum 457)
   \<and> schema (\<lambda>v. case v of JNum n \<Rightarrow> 0 \<le> n | _ \<Rightarrow> False)
     (JObj [(''data'', JObj [(''repository'', JObj [])])])
   \<and> transform (JObj [(''data'', JObj [(''repository'', JObj [])])])
       = Inl (Failure InvalidResponse ''invalid branch'')
   \<and> nullObject (JObj [(''data'', JObj [(''repository'', JObj [(''object'', JNull)])])])
   \<and> transform (JObj [(''data'', JObj [(''repository'', JObj [(''object'', JNull)])])])
       = Inl (Failure InvalidResponse ''invalid branch'')"
proof -
  let ?nni = "\<lambda>v. case v of JNum n \<Rightarrow> 0 \<le> n | _ \<Rightarrow> False"
  let ?full =
    "JObj [(''data'', JObj [(''repository'', JObj [(''object'',
        JObj [(''history'', JObj [(''totalCount'', JNum 457)])])])])]"
  let ?absent = "JObj [(''data'', JObj [(''repository'', JObj [])])]"
  let ?null = "JObj [(''data'', JObj [(''repository'', JObj [(''object'', JNull)])])]"
  have a: "schema ?nni ?full"
    by (simp add: schema_def required_def joiObject_def)
  have b: "schema ?nni ?absent"
    by (simp add: schema_def required_def joiObject_def)
  have c: "nullObject ?null"
    by (simp add: nullObject_def dig_def)
  from transform_validated [of ?nni ?full] a
  have "transform ?full = Inr (JNum 457)" by (simp add: dig_def)
  moreover from transform_validated [of ?nni ?absent] b
  have "transform ?absent = Inl (Failure InvalidResponse ''invalid branch'')"
    by (simp add: dig_def)
  moreover from transform_validated [of ?nni ?null] c
  have "transform ?null = Inl (Failure InvalidResponse ''invalid branch'')"
    by (simp add: dig_def)
  ultimately show ?thesis using a b c by simp
qed

section \<open>Properties of licenseToColor\<close>

lemma map_of_assign: "map_of (assign m k v) = (map_of m)(k \<mapsto> v)"
  by (induction m k v rule: assign.induct) auto

lemma map_of_foldl_assign:
  "map_of (foldl (\<lambda>m l. assign m l v) m ls) k = (if k \<in> set ls then Some v else map_of m k)"
  by (induction ls arbitrary: m) (auto simp: map_of_assign)

lemma map_of_addLicenseType:
  "map_of (addLicenseType m t) k =
     (if k \<in> set (spdxLicenseIds t) \<union> set (aliases t) then Some (colorAndPriority t)
      else map_of m k)"
  by (simp add: addLicenseType_def map_of_foldl_assign)

text \<open>The table, read as a function: the license type added last wins.\<close>

lemma map_of_licenseToColorMap:
  "map_of licenseToColorMap k =
     (if k \<in> set (spdxLicenseIds publicDomain) \<union> set (aliases publicDomain)
        then Some (colorAndPriority publicDomain)
      else if k \<in> set (spdxLicenseIds copyleft) \<union> set (aliases copyleft)
        then Some (colorAndPriority copyleft)
      else if k \<in> set (spdxLicenseIds permissive) \<union> set (aliases permissive)
        then Some (colorAndPriority permissive)
      else None)"
  by (simp add: licenseToColorMap_def licenseTypes_def map_of_addLicenseType)

lemma toString_not_a_license: "map_of licenseToColorMap ''toString'' = None"
  by (simp add: map_of_licenseToColorMap permissive_def copyleft_def publicDomain_def)

lemma toString_inherited: "objGet licenseToColorMap ''toString'' = JFun ''toString''"
  by (simp add: objGet_def toString_not_a_license inherited_def objectPrototypeFunctions_def)

text \<open>
  Claim C9 (licenseToColor gives \<open>lightgrey\<close> when no element of the input appears in
  licenseToColorMap, and otherwise the color of the mapped license of highest
  priority). On the code the lookup \<open>licenseToColorMap[license]\<close> also finds what a
  plain object inherits: for the string \<open>toString\<close>, which is no key of the table,
  it finds a function, \<open>filter(Boolean)\<close> keeps it, the comparator's NaN leaves it in
  front of the default, and the color read from it is \<open>undefined\<close>.
\<close>

theorem licenseToColor_inherited_name:
  "map_of licenseToColorMap ''toString'' = None
   \<and> licenseToColor (License ''toString'') = Inr JUndefined
   \<and> licenseToColor (Licenses [''toString'']) = Inr JUndefined"
proof -
  have "sortJS byPriority
          [JFun ''toString'', JObj [(''color'', JStr ''lightgrey''), (''priority'', JNum 0)]]
        = [JFun ''toString'', JObj [(''color'', JStr ''lightgrey''), (''priority'', JNum 0)]]"
    by (simp add: sortJS_def sortCompare_def byPriority_def member_def objGet_def)
  then show ?thesis
    by (simp add: licenseToColor_def toString_inherited toString_not_a_license)
qed

text \<open>Facts on the entries of the table and on the sort.\<close>

lemma entry_cases:
  assumes "map_of licenseToColorMap l = Some e"
  shows "e = colorAndPriority publicDomain \<or> e = colorAndPriority copyleft
    \<or> e = colorAndPriority permissive"
  using assms by (auto simp: map_of_licenseToColorMap split: if_splits)

lemma entry_priority:
  assumes "map_of licenseToColorMap l = Some e"
  shows "\<exists>p. toNumber (member e ''priority'') = Some p \<and> 1 \<le> p"
  using entry_cases [OF assms]
  by (auto simp: colorAndPriority_def permissive_def copyleft_def publicDomain_def
        member_def objGet_def stringToNumber_def digitValue_def)

lemma entry_truthy:
  assumes "map_of licenseToColorMap l = Some e"
  shows "truthy e"
  using entry_cases [OF assms] by (auto simp: colorAndPriority_def)

lemma entry_color:
  assumes "map_of licenseToColorMap l = Some e"
  shows "getProp e ''color'' = Inr (member e ''color'')"
  using entry_cases [OF assms] by (auto simp: colorAndPriority_def member_def)

lemma set_insertSorted: "set (insertSorted c x xs) = insert x (set xs)"
  by (induction xs) auto

lemma set_sortJS: "set (sortJS c xs) = set xs"
  by (induction xs) (auto simp: sortJS_def set_insertSorted)

lemma sortJS_Cons: "sortJS c (x # xs) = insertSorted c x (sortJS c xs)"
  by (simp add: sortJS_def)

text \<open>
  Where the comparator is the difference of a numeric key, the sorted list starts
  with an element whose key is greatest.
\<close>

lemma sortJS_head:
  assumes "xs \<noteq> []"
    and "\<forall>x \<in> set xs. \<forall>y \<in> set xs. c x y = Some (p y - p x)"
  shows "\<exists>h t. sortJS c xs = h # t \<and> h \<in> set xs \<and> (\<forall>y \<in> set xs. p y \<le> p h)"
  using assms
proof (induction xs)
  case Nil
  then show ?case by simp
next
  case (Cons x xs)
  show ?case
  proof (cases "xs = []")
    case True
    then show ?thesis by (simp add: sortJS_def)
  next
    case False
    with Cons obtain h t where s: "sortJS c xs = h # t" and h: "h \<in> set xs"
      and mx: "\<forall>y \<in> set xs. p y \<le> p h"
      by auto
    from Cons.prems h have cmp: "c x h = Some (p h - p x)"
      by simp
    show ?thesis
    proof (cases "p h \<le> p x")
      case True
      with cmp s have "sortJS c (x # xs) = x # h # t"
        by (simp add: sortJS_Cons sortCompare_def)
      moreover from True mx have "\<forall>y \<in> set (x # xs). p y \<le> p x"
        by auto
      ultimately show ?thesis by simp
    next
      case False
      with cmp s have "sortJS c (x # xs) = h # insertSorted c x t"
        by (simp add: sortJS_Cons sortCompare_def)
      moreover from False mx have "\<forall>y \<in> set (x # xs). p y \<le> p h"
        by auto
      ultimately show ?thesis using h by simp
    qed
  qed
qed

text \<open>
  Off the inherited names the first part of the claim holds: the result is
  \<open>lightgrey\<close> when no license of the input is in the table, and otherwise the color
  of a license of the input whose priority no other one exceeds.
\<close>

lemma objGet_not_inherited:
  assumes "inherited l = JUndefined"
  shows "objGet licenseToColorMap l =
    (case map_of licenseToColorMap l of Some e \<Rightarrow> e | None \<Rightarrow> JUndefined)"
  using assms by (simp add: objGet_def split: option.split)

lemma mapped_entries:
  assumes "\<forall>l \<in> set ls. inherited l = JUndefined"
  shows "set (filter truthy (map (objGet licenseToColorMap) ls))
    = {e. \<exists>l \<in> set ls. map_of licenseToColorMap l = Some e}"
proof (intro set_eqI iffI)
  fix e
  assume "e \<in> set (filter truthy (map (objGet licenseToColorMap) ls))"
  then obtain l where l: "l \<in> set ls" and e: "e = objGet licenseToColorMap l" and t: "truthy e"
    by auto
  from l assms have "inherited l = JUndefined" by blast
  with e t have "map_of licenseToColorMap l = Some e"
    by (cases "map_of licenseToColorMap l") (simp_all add: objGet_not_inherited)
  with l show "e \<in> {e. \<exists>l \<in> set ls. map_of licenseToColorMap l = Some e}" by blast
next
  fix e
  assume "e \<in> {e. \<exists>l \<in> set ls. map_of licenseToColorMap l = Some e}"
  then obtain l where l: "l \<in> set ls" and m: "map_of licenseToColorMap l = Some e"
    by blast
  from l assms have "inherited l = JUndefined" by blast
  with m have "objGet licenseToColorMap l = e"
    by (simp add: objGet_not_inherited)
  moreover from m have "truthy e" by (rule entry_truthy)
  ultimately show "e \<in> set (filter truthy (map (objGet licenseToColorMap) ls))"
    using l by force
qed

lemma licenseToColor_mapped:
  assumes "\<forall>l \<in> set ls. inherited l = JUndefined"
  shows "((\<forall>l \<in> set ls. map_of licenseToColorMap l = None) \<longrightarrow>
            licenseToColor (Licenses ls) = Inr (JStr ''lightgrey''))
    \<and> ((\<exists>l \<in> set ls. map_of licenseToColorMap l \<noteq> None) \<longrightarrow>
         (\<exists>l \<in> set ls. \<exists>e. map_of licenseToColorMap l = Some e
            \<and> licenseToColor (Licenses ls) = Inr (member e ''color'')
            \<and> (\<forall>l' \<in> set ls. \<forall>e'. map_of licenseToColorMap l' = Some e' \<longrightarrow>
                  priorityNumber e' \<le> priorityNumber e)))"
proof -
  let ?dflt = "JObj [(''color'', JStr ''lightgrey''), (''priority'', JNum 0)]"
  let ?xs = "filter truthy (map (objGet licenseToColorMap) ls)"
  have xs: "set ?xs = {e. \<exists>l \<in> set ls. map_of licenseToColorMap l = Some e}"
    using assms by (rule mapped_entries)
  have dflt: "toNumber (member ?dflt ''priority'') = Some 0"
    by (simp add: member_def objGet_def)
  have num: "\<exists>p. toNumber (member x ''priority'') = Some p" if "x \<in> set (?xs @ [?dflt])" for x
  proof (cases "x = ?dflt")
    case True
    with dflt show ?thesis by simp
  next
    case False
    with that xs obtain l where "map_of licenseToColorMap l = Some x" by auto
    from entry_priority [OF this] show ?thesis by blast
  qed
  have cmp: "\<forall>x \<in> set (?xs @ [?dflt]). \<forall>y \<in> set (?xs @ [?dflt]).
      byPriority x y = Some (priorityNumber y - priorityNumber x)"
  proof (intro ballI)
    fix x y
    assume "x \<in> set (?xs @ [?dflt])" and "y \<in> set (?xs @ [?dflt])"
    then obtain p q where "toNumber (member x ''priority'') = Some p"
      and "toNumber (member y ''priority'') = Some q"
      using num by blast
    then show "byPriority x y = Some (priorityNumber y - priorityNumber x)"
      by (simp add: byPriority_def priorityNumber_def)
  qed
  have "?xs @ [?dflt] \<noteq> []" by simp
  from sortJS_head [OF this cmp]
  obtain h t where s: "sortJS byPriority (?xs @ [?dflt]) = h # t"
    and h: "h \<in> set (?xs @ [?dflt])"
    and mx: "\<forall>y \<in> set (?xs @ [?dflt]). priorityNumber y \<le> priorityNumber h"
    by blast
  from s have res: "licenseToColor (Licenses ls) = getProp h ''color''"
    by (simp add: licenseToColor_def)
  have none: "licenseToColor (Licenses ls) = Inr (JStr ''lightgrey'')"
    if "\<forall>l \<in> set ls. map_of licenseToColorMap l = None"
  proof -
    from that have "{e. \<exists>l \<in> set ls. map_of licenseToColorMap l = Some e} = {}"
      by auto
    then have "set ?xs = {}"
      unfolding xs .
    moreover from h have "h \<in> set ?xs \<union> {?dflt}"
      by (simp only: set_append list.set)
    ultimately have "h \<in> {} \<union> {?dflt}"
      by (simp only:)
    then have "h = ?dflt" by simp
    with res show ?thesis by (simp add: objGet_def)
  qed
  have some: "\<exists>l \<in> set ls. \<exists>e. map_of licenseToColorMap l = Some e
            \<and> licenseToColor (Licenses ls) = Inr (member e ''color'')
            \<and> (\<forall>l' \<in> set ls. \<forall>e'. map_of licenseToColorMap l' = Some e' \<longrightarrow>
                  priorityNumber e' \<le> priorityNumber e)"
    if "\<exists>l \<in> set ls. map_of licenseToColorMap l \<noteq> None"
  proof -
    from that obtain l0 e0 where l0: "l0 \<in> set ls" and e0: "map_of licenseToColorMap l0 = Some e0"
      by blast
    from entry_priority [OF e0] have "1 \<le> priorityNumber e0"
      by (auto simp: priorityNumber_def)
    moreover from l0 e0 xs have "e0 \<in> set (?xs @ [?dflt])" by auto
    ultimately have "1 \<le> priorityNumber h" using mx by force
    moreover have "priorityNumber ?dflt = 0"
      by (simp add: priorityNumber_def dflt)
    ultimately have "h \<noteq> ?dflt" by auto
    with h xs obtain l where l: "l \<in> set ls" and e: "map_of licenseToColorMap l = Some h"
      by auto
    have "\<forall>l' \<in> set ls. \<forall>e'. map_of licenseToColorMap l' = Some e' \<longrightarrow>
        priorityNumber e' \<le> priorityNumber h"
    proof (intro ballI allI impI)
      fix l' e'
      assume "l' \<in> set ls" and "map_of licenseToColorMap l' = Some e'"
      with xs have "e' \<in> set (?xs @ [?dflt])" by auto
      with mx show "priorityNumber e' \<le> priorityNumber h" by blast
    qed
    with l e res entry_color [OF e] show ?thesis by auto
  qed
  from none some show ?thesis by blast
qed

text \<open>The last part of the claim: a single license is treated as the list of it.\<close>

lemma licenseToColor_single: "licenseToColor (License s) = licenseToColor (Licenses [s])"
  by (simp add: licenseToColor_def)


text \<open>The table at work on licenses it knows and on one it does not.\<close>

lemma lookup_examples:
  "objGet licenseToColorMap ''MIT'' = colorAndPriority permissive"
  "objGet licenseToColorMap ''GPL-3.0'' = colorAndPriority copyleft"
  "objGet licenseToColorMap ''CC0-1.0'' = colorAndPriority publicDomain"
  "objGet licenseToColorMap ''Proprietary'' = JUndefined"
  by (simp_all add: objGet_def map_of_licenseToColorMap permissive_def copyleft_def
        publicDomain_def inherited_def objectPrototypeFunctions_def)

lemma priority_examples:
  "toNumber (member (colorAndPriority permissive) ''priority'') = Some 2"
  "toNumber (member (colorAndPriority copyleft) ''priority'') = Some 1"
  "toNumber (member (colorAndPriority publicDomain) ''priority'') = Some 3"
  "toNumber (member (JObj [(''color'', JStr ''lightgrey''), (''priority'', JNum 0)]) ''priority'') = Some 0"
  by (simp_all add: colorAndPriority_def permissive_def copyleft_def publicDomain_def
        member_def objGet_def stringToNumber_def digitValue_def)

lemma color_examples:
  "getProp (colorAndPriority permissive) ''color'' = Inr (JStr ''green'')"
  "getProp (colorAndPriority copyleft) ''color'' = Inr (JStr ''orange'')"
  "getProp (colorAndPriority publicDomain) ''color'' = Inr (JStr ''7cd958'')"
  "objGet [(''color'', JStr ''lightgrey''), (''priority'', JNum 0)] ''color'' = JStr ''lightgrey''"
  "truthy (colorAndPriority t)"
  by (simp_all add: colorAndPriority_def permissive_def copyleft_def publicDomain_def objGet_def)

lemma licenseToColor_examples:
  "licenseToColor (License ''MIT'') = Inr (JStr ''green'')"
  "licenseToColor (Licenses [''GPL-3.0'', ''MIT'', ''CC0-1.0'']) = Inr (JStr ''7cd958'')"
  "licenseToColor (Licenses [''GPL-3.0'', ''Proprietary'']) = Inr (JStr ''orange'')"
  "licenseToColor (License ''Proprietary'') = Inr (JStr ''lightgrey'')"
  by (simp_all add: licenseToColor_def lookup_examples sortJS_def sortCompare_def byPriority_def
        priority_examples color_examples)

end
